theory Spec2Isabelle
  imports Complex_Main
begin

section \<open>Python strings\<close>

text \<open>
  A Python \<open>str\<close> is a sequence of Unicode code points; it is modelled as a list of
  natural numbers. Binary data (the uploaded document) is a list of bytes, and the names
  the program itself makes up (session keys, temporary file names, URL paths, template
  names) are ASCII and are kept as HOL strings.
\<close>

type_synonym pystr = "nat list"

type_synonym bytes = string

definition py :: "string \<Rightarrow> pystr" where
  "py s = map of_char s"

text \<open>
  \<open>str.split()\<close> without arguments splits at runs of whitespace and yields no empty
  words. The whitespace code points are those of CPython's \<open>str.isspace\<close>.
\<close>

definition is_space :: "nat \<Rightarrow> bool" where
  "is_space c \<longleftrightarrow>
     (9 \<le> c \<and> c \<le> 13) \<or> (28 \<le> c \<and> c \<le> 32) \<or> c = 133 \<or> c = 160 \<or> c = 5760 \<or>
     (8192 \<le> c \<and> c \<le> 8202) \<or> c = 8232 \<or> c = 8233 \<or> c = 8239 \<or> c = 8287 \<or>
     c = 12288"

fun split_from :: "pystr \<Rightarrow> pystr \<Rightarrow> pystr list" where
  "split_from word [] = (if word = [] then [] else [word])"
| "split_from word (c # cs) =
     (if is_space c
      then (if word = [] then split_from [] cs else word # split_from [] cs)
      else split_from (word @ [c]) cs)"

definition py_split :: "pystr \<Rightarrow> pystr list" where
  "py_split s = split_from [] s"

text \<open>\<open>sep.join(xs)\<close>.\<close>

fun py_join :: "pystr \<Rightarrow> pystr list \<Rightarrow> pystr" where
  "py_join sep [] = []"
| "py_join sep [x] = x"
| "py_join sep (x # y # ys) = x @ sep @ py_join sep (y # ys)"

text \<open>
  \<open>s.replace(old, new)\<close>: every non-overlapping occurrence of \<open>old\<close>, from the left.
  With an empty \<open>old\<close> Python puts \<open>new\<close> before every code point and at the end.
\<close>

function py_replace :: "pystr \<Rightarrow> pystr \<Rightarrow> pystr \<Rightarrow> pystr" where
  "py_replace old new s =
     (if old = [] then concat (map (\<lambda>c. new @ [c]) s) @ new
      else if s = [] then []
      else if take (length old) s = old
           then new @ py_replace old new (drop (length old) s)
           else hd s # py_replace old new (tl s))"
  by pat_completeness auto
termination
  by (relation "measure (\<lambda>(old, new, s). length s)") auto

declare py_replace.simps [simp del]

text \<open>
  \<open>s.lower()\<close>, on the letters A to Z. No code point outside that range lowercases to
  one of the code points of \<open>.pdf\<close>, the only text a lowered name is compared with.
\<close>

definition py_lower :: "pystr \<Rightarrow> pystr" where
  "py_lower s = map (\<lambda>c. if 65 \<le> c \<and> c \<le> 90 then c + 32 else c) s"

definition endswith :: "pystr \<Rightarrow> pystr \<Rightarrow> bool" where
  "endswith s suffix \<longleftrightarrow>
     length suffix \<le> length s \<and> drop (length s - length suffix) s = suffix"

section \<open>Requests, responses and the world\<close>

datatype http_method = GET | POST | PUT | PATCH | DELETE

record upload =
  filename :: pystr
  content :: bytes

text \<open>
  A request carries its method and path, whether its CSRF token is one the application
  accepts, and the two form fields: the file part \<open>pdf_file\<close> and the text part
  \<open>text_input\<close>, each absent or present.
\<close>

record request =
  req_method :: http_method
  req_path :: string
  csrf_ok :: bool
  pdf_file :: "upload option"
  text_input :: "pystr option"

record form =
  pdf_file_data :: "upload option"
  text_input_data :: pystr
  form_errors :: "(string \<times> pystr) list"

datatype template_context = Upload_form form | Response_text pystr

text \<open>A response is a redirect, with its status code and target, or a rendered template.\<close>

datatype response = Redirect nat string | Render string template_context

datatype error =
    NotFound
  | MethodNotAllowed
  | CSRFError
  | ExtractionError
  | InferenceError
  | AttributeError
  | KeyError string
  | FileNotFoundError string

record GenerationConfig =
  temperature :: rat
  top_p :: rat
  candidate_count :: nat
  max_output_tokens :: nat

text \<open>
  The collaborators of one request: the name \<open>uuid.uuid4()\<close> draws, the document
  parser (\<open>None\<close> when it raises), the hosted model (the text of its response, \<open>None\<close>
  when the call or the read of the text raises) and the markdown converter.
\<close>

record env =
  uuid4 :: string
  load_and_split :: "bytes \<Rightarrow> pystr list option"
  generate_content :: "pystr \<Rightarrow> GenerationConfig \<Rightarrow> pystr option"
  markdown :: "pystr \<Rightarrow> pystr"

text \<open>The calls that leave the handler, in the order they are made.\<close>

datatype event =
    Save string
  | Load string
  | Generate pystr GenerationConfig
  | Markdown pystr
  | Remove string

text \<open>
  The world around a request: local storage, the session of the current user, and the
  log of calls made so far.
\<close>

record world =
  files :: "string \<rightharpoonup> bytes"
  session :: "string \<rightharpoonup> pystr"
  trace :: "event list"

type_synonym 'a result = "(error + 'a) \<times> world"

section \<open>The upload form\<close>

text \<open>
  \<open>FileField\<close> keeps an uploaded part only when it has a file name. \<open>FileRequired\<close>
  fails when no file was kept; \<open>FileAllowed\<close> passes when none was kept and otherwise
  wants the lowered name to end in a dot and one of the allowed extensions. Both stop the
  chain of validators at the first failure. \<open>text_input\<close> has no validator; it takes its
  default when the field is not in the submission.
\<close>

definition FileField_data :: "request \<Rightarrow> upload option" where
  "FileField_data req =
     (case pdf_file req of
        None \<Rightarrow> None
      | Some u \<Rightarrow> if filename u = [] then None else Some u)"

definition FileRequired :: "upload option \<Rightarrow> pystr option" where
  "FileRequired d =
     (case d of None \<Rightarrow> Some (py ''This field is required.'') | Some u \<Rightarrow> None)"

definition FileAllowed :: "pystr list \<Rightarrow> pystr \<Rightarrow> upload option \<Rightarrow> pystr option" where
  "FileAllowed upload_set message d =
     (case d of
        None \<Rightarrow> None
      | Some u \<Rightarrow>
          if list_ex (\<lambda>x. endswith (py_lower (filename u)) (py ''.'' @ x)) upload_set
          then None else Some message)"

fun run_validation_chain ::
  "(upload option \<Rightarrow> pystr option) list \<Rightarrow> upload option \<Rightarrow> pystr list" where
  "run_validation_chain [] d = []"
| "run_validation_chain (v # vs) d =
     (case v d of Some message \<Rightarrow> [message] | None \<Rightarrow> run_validation_chain vs d)"

definition pdf_file_validators :: "(upload option \<Rightarrow> pystr option) list" where
  "pdf_file_validators =
     [FileRequired, FileAllowed [py ''pdf''] (py ''Please select a PDF.'')]"

definition text_input_default :: pystr where
  "text_input_default = py ''Summarize the PDF.''"

definition is_submitted :: "request \<Rightarrow> bool" where
  "is_submitted req \<longleftrightarrow> req_method req \<in> {POST, PUT, PATCH, DELETE}"

definition UploadForm :: "request \<Rightarrow> form" where
  "UploadForm req =
     (if is_submitted req
      then \<lparr>pdf_file_data = FileField_data req,
            text_input_data =
              (case text_input req of None \<Rightarrow> text_input_default | Some t \<Rightarrow> t),
            form_errors = []\<rparr>
      else \<lparr>pdf_file_data = None, text_input_data = text_input_default,
            form_errors = []\<rparr>)"

definition validate :: "form \<Rightarrow> form" where
  "validate f =
     f\<lparr>form_errors :=
         map (Pair ''pdf_file'')
           (run_validation_chain pdf_file_validators (pdf_file_data f))\<rparr>"

text \<open>
  \<open>validate_on_submit\<close> returns the verdict and the form with its errors filled in. The
  view runs behind the application-wide CSRF check (see \<open>dispatch\<close>), so the token field
  of the form itself never fails there and is left out.
\<close>

definition validate_on_submit :: "request \<Rightarrow> form \<Rightarrow> bool \<times> form" where
  "validate_on_submit req f =
     (if is_submitted req
      then (let f' = validate f in (form_errors f' = [], f'))
      else (False, f))"

section \<open>Effects\<close>

definition save :: "upload \<Rightarrow> string \<Rightarrow> world \<Rightarrow> world" where
  "save u name w =
     w\<lparr>files := (files w)(name \<mapsto> content u), trace := trace w @ [Save name]\<rparr>"

text \<open>The parser reads the stored file; a missing file or a parser failure raises.\<close>

definition PyPDFLoader_load_and_split :: "env \<Rightarrow> string \<Rightarrow> world \<Rightarrow> pystr list result" where
  "PyPDFLoader_load_and_split e name w =
     (let w' = w\<lparr>trace := trace w @ [Load name]\<rparr>
      in case files w name of
           None \<Rightarrow> (Inl (FileNotFoundError name), w')
         | Some data \<Rightarrow>
             (case load_and_split e data of
                None \<Rightarrow> (Inl ExtractionError, w')
              | Some pages \<Rightarrow> (Inr pages, w')))"

definition model_generate_content ::
  "env \<Rightarrow> pystr \<Rightarrow> GenerationConfig \<Rightarrow> world \<Rightarrow> pystr result" where
  "model_generate_content e prompt config w =
     (let w' = w\<lparr>trace := trace w @ [Generate prompt config]\<rparr>
      in case generate_content e prompt config of
           None \<Rightarrow> (Inl InferenceError, w')
         | Some text \<Rightarrow> (Inr text, w'))"

definition markdown_markdown :: "env \<Rightarrow> pystr \<Rightarrow> world \<Rightarrow> pystr \<times> world" where
  "markdown_markdown e text w = (markdown e text, w\<lparr>trace := trace w @ [Markdown text]\<rparr>)"

definition os_remove :: "string \<Rightarrow> world \<Rightarrow> unit result" where
  "os_remove name w =
     (let w' = w\<lparr>trace := trace w @ [Remove name]\<rparr>
      in case files w name of
           None \<Rightarrow> (Inl (FileNotFoundError name), w')
         | Some data \<Rightarrow> (Inr (), w'\<lparr>files := (files w)(name := None)\<rparr>))"

section \<open>The views\<close>

datatype endpoint = Index | Pdf_results

fun url_for :: "endpoint \<Rightarrow> string" where
  "url_for Index = ''/''"
| "url_for Pdf_results = ''/pdf_results''"

text \<open>
  \<open>redirect(location)\<close>, as the view calls it: without a status code, which the framework
  then sets to its default, 302.
\<close>

definition redirect :: "string \<Rightarrow> response" where
  "redirect location = Redirect 302 location"

definition generation_config :: GenerationConfig where
  "generation_config =
     \<lparr>temperature = 3 / 10, top_p = 6 / 10, candidate_count = 1,
      max_output_tokens = 4096\<rparr>"

definition word_count_of :: "pystr \<Rightarrow> nat" where
  "word_count_of combined_text = length (py_split combined_text)"

definition combined_text_of :: "pystr list \<Rightarrow> pystr" where
  "combined_text_of pages = py_join (py ''\<newline>\<newline>'') pages"

definition prompt_of :: "pystr \<Rightarrow> pystr \<Rightarrow> pystr" where
  "prompt_of instruction combined_text =
     instruction @ py '' Use information from the PDF to respond.\<newline>\<newline>PDF:\<newline>''
       @ combined_text"

definition bullet_glyph :: pystr where
  "bullet_glyph = [226, 8364, 162]"

definition too_long_message :: pystr where
  "too_long_message =
     py ''This text is too long for this application's current configuration.\<newline>\<newline>Please use a shorter text.''"

text \<open>
  The view \<open>index\<close>. Every call that can raise is a branch that returns the error with
  the world as it is at that point. The debug log lines are left out.
\<close>

definition index :: "env \<Rightarrow> request \<Rightarrow> world \<Rightarrow> response result" where
  "index e req w =
     (let (valid, form) = validate_on_submit req (UploadForm req)
      in if valid then
           (case pdf_file_data form of
              None \<Rightarrow> (Inl AttributeError, w)
            | Some pdf \<Rightarrow>
                let pdf_temp_filename = uuid4 e;
                    w1 = save pdf pdf_temp_filename w
                in (case PyPDFLoader_load_and_split e pdf_temp_filename w1 of
                      (Inl err, w2) \<Rightarrow> (Inl err, w2)
                    | (Inr pages, w2) \<Rightarrow>
                        let combined_text = combined_text_of pages;
                            word_count = word_count_of combined_text
                        in (case (if word_count < 18500
                                  then (let prompt = prompt_of (text_input_data form) combined_text
                                        in case model_generate_content e prompt generation_config w2 of
                                             (Inl err, w3) \<Rightarrow> (Inl err, w3)
                                           | (Inr text, w3) \<Rightarrow>
                                               (Inr (py_replace bullet_glyph (py ''  *'') text), w3))
                                  else (Inr too_long_message, w2)) of
                              (Inl err, w3) \<Rightarrow> (Inl err, w3)
                            | (Inr response_text, w3) \<Rightarrow>
                                (case markdown_markdown e response_text w3 of
                                   (markdown_response, w4) \<Rightarrow>
                                     let w5 = w4\<lparr>session :=
                                                  (session w4)(''markdown_response'' \<mapsto> markdown_response)\<rparr>
                                     in (case os_remove pdf_temp_filename w5 of
                                           (Inl err, w6) \<Rightarrow> (Inl err, w6)
                                         | (Inr u, w6) \<Rightarrow>
                                             (Inr (redirect (url_for Pdf_results)), w6))))))
         else (Inr (Render ''index.html'' (Upload_form form)), w))"

definition pdf_results :: "world \<Rightarrow> response result" where
  "pdf_results w =
     (case session w ''markdown_response'' of
        None \<Rightarrow> (Inl (KeyError ''markdown_response''), w)
      | Some r \<Rightarrow> (Inr (Render ''pdf_results.html'' (Response_text r)), w))"

section \<open>Routing\<close>

text \<open>
  The two routes, each registered for GET and POST. A request that matches no rule is
  answered 404, one that matches a rule with another method 405. \<open>CSRFProtect(app)\<close>
  checks the token of every matched POST, PUT, PATCH and DELETE before the view runs.
  HEAD and OPTIONS, which the framework answers by itself, are not among the methods of
  the model.
\<close>

definition url_map :: "(string \<times> http_method list \<times> endpoint) list" where
  "url_map =
     [(url_for Index, [GET, POST], Index),
      (url_for Pdf_results, [GET, POST], Pdf_results)]"

definition match_request :: "string \<Rightarrow> http_method \<Rightarrow> error + endpoint" where
  "match_request p m =
     (case filter (\<lambda>(rule, ms, ep). rule = p) url_map of
        [] \<Rightarrow> Inl NotFound
      | r # rs \<Rightarrow>
          (case find (\<lambda>(rule, ms, ep). m \<in> set ms) (r # rs) of
             None \<Rightarrow> Inl MethodNotAllowed
           | Some (rule, ms, ep) \<Rightarrow> Inr ep))"

definition dispatch :: "env \<Rightarrow> request \<Rightarrow> world \<Rightarrow> response result" where
  "dispatch e req w =
     (case match_request (req_path req) (req_method req) of
        Inl err \<Rightarrow> (Inl err, w)
      | Inr ep \<Rightarrow>
          if is_submitted req \<and> \<not> csrf_ok req then (Inl CSRFError, w)
          else (case ep of Index \<Rightarrow> index e req w | Pdf_results \<Rightarrow> pdf_results w))"

section \<open>Reading the log\<close>

fun inference_calls :: "event list \<Rightarrow> (pystr \<times> GenerationConfig) list" where
  "inference_calls [] = []"
| "inference_calls (Generate prompt config # evs) = (prompt, config) # inference_calls evs"
| "inference_calls (ev # evs) = inference_calls evs"

fun markdown_calls :: "event list \<Rightarrow> pystr list" where
  "markdown_calls [] = []"
| "markdown_calls (Markdown text # evs) = text # markdown_calls evs"
| "markdown_calls (ev # evs) = markdown_calls evs"

section \<open>Sample inputs\<close>

definition sample_upload :: upload where
  "sample_upload = \<lparr>filename = py ''report.pdf'', content = ''%PDF-1.4''\<rparr>"

definition sample_request :: request where
  "sample_request =
     \<lparr>req_method = POST, req_path = ''/'', csrf_ok = True,
      pdf_file = Some sample_upload, text_input = None\<rparr>"

definition sample_form :: form where
  "sample_form =
     \<lparr>pdf_file_data = Some sample_upload, text_input_data = text_input_default,
      form_errors = []\<rparr>"

definition empty_world :: world where
  "empty_world = \<lparr>files = Map.empty, session = Map.empty, trace = []\<rparr>"

definition sample_markdown :: "pystr \<Rightarrow> pystr" where
  "sample_markdown text = py ''<p>'' @ text @ py ''</p>''"

definition long_text :: pystr where
  "long_text = concat (replicate 18500 (py ''word ''))"

definition sample_pages :: "pystr list" where
  "sample_pages = [py ''alpha beta'', py ''gamma'', py ''delta epsilon'']"

definition env_long :: env where
  "env_long =
     \<lparr>uuid4 = ''0f8fad5b'', load_and_split = (\<lambda>d. Some [long_text]),
      generate_content = (\<lambda>p c. Some (py ''A summary.'')), markdown = sample_markdown\<rparr>"

definition env_short :: env where
  "env_short =
     \<lparr>uuid4 = ''7c9e6679'',
      load_and_split = (\<lambda>d. Some sample_pages),
      generate_content = (\<lambda>p c. Some (py ''A summary.'')), markdown = sample_markdown\<rparr>"

definition bullet_answer :: pystr where
  "bullet_answer = [226, 8364, 162] @ py '' first point''"

definition env_bullet :: env where
  "env_bullet =
     \<lparr>uuid4 = ''7c9e6679'', load_and_split = (\<lambda>d. Some sample_pages),
      generate_content = (\<lambda>p c. Some bullet_answer), markdown = sample_markdown\<rparr>"

definition env_unparseable :: env where
  "env_unparseable =
     \<lparr>uuid4 = ''16fd2706'', load_and_split = (\<lambda>d. None),
      generate_content = (\<lambda>p c. Some (py ''A summary.'')), markdown = sample_markdown\<rparr>"

definition env_quota :: env where
  "env_quota =
     \<lparr>uuid4 = ''6ba7b810'', load_and_split = (\<lambda>d. Some sample_pages),
      generate_content = (\<lambda>p c. None), markdown = sample_markdown\<rparr>"

definition world_with_result :: world where
  "world_with_result =
     \<lparr>files = Map.empty, session = [''markdown_response'' \<mapsto> py ''<p>Earlier.</p>''],
      trace = []\<rparr>"

definition results_get :: request where
  "results_get =
     \<lparr>req_method = GET, req_path = ''/pdf_results'', csrf_ok = False, pdf_file = None,
      text_input = None\<rparr>"

definition results_post_without_token :: request where
  "results_post_without_token =
     \<lparr>req_method = POST, req_path = ''/pdf_results'', csrf_ok = False, pdf_file = None,
      text_input = None\<rparr>"

definition results_post_with_token :: request where
  "results_post_with_token =
     \<lparr>req_method = POST, req_path = ''/pdf_results'', csrf_ok = True, pdf_file = None,
      text_input = None\<rparr>"

definition empty_instruction_request :: request where
  "empty_instruction_request =
     \<lparr>req_method = POST, req_path = ''/'', csrf_ok = True,
      pdf_file = Some sample_upload, text_input = Some []\<rparr>"

definition txt_request :: request where
  "txt_request =
     \<lparr>req_method = POST, req_path = ''/'', csrf_ok = True,
      pdf_file = Some \<lparr>filename = py ''notes.txt'', content = ''plain text''\<rparr>,
      text_input = Some (py ''Summarize the notes.'')\<rparr>"

definition no_file_request :: request where
  "no_file_request =
     \<lparr>req_method = POST, req_path = ''/'', csrf_ok = True, pdf_file = None,
      text_input = None\<rparr>"

section \<open>The handler in closed form\<close>

lemmas effect_defs = save_def PyPDFLoader_load_and_split_def model_generate_content_def
  markdown_markdown_def os_remove_def

lemma index_too_long:
  assumes "validate_on_submit req (UploadForm req) = (True, form)"
    and "pdf_file_data form = Some pdf"
    and "load_and_split e (content pdf) = Some pages"
    and "\<not> word_count_of (combined_text_of pages) < 18500"
  shows "index e req w =
    (Inr (Redirect 302 ''/pdf_results''),
     w\<lparr>files := (files w)(uuid4 e := None),
       session := (session w)(''markdown_response'' \<mapsto> markdown e too_long_message),
       trace := trace w @ [Save (uuid4 e), Load (uuid4 e), Markdown too_long_message,
                           Remove (uuid4 e)]\<rparr>)"
  using assms by (simp add: index_def effect_defs Let_def redirect_def)

lemma index_inference:
  assumes "validate_on_submit req (UploadForm req) = (True, form)"
    and "pdf_file_data form = Some pdf"
    and "load_and_split e (content pdf) = Some pages"
    and "word_count_of (combined_text_of pages) < 18500"
    and "generate_content e (prompt_of (text_input_data form) (combined_text_of pages))
           generation_config = Some text"
  shows "index e req w =
    (Inr (Redirect 302 ''/pdf_results''),
     w\<lparr>files := (files w)(uuid4 e := None),
       session := (session w)(''markdown_response'' \<mapsto>
                     markdown e (py_replace bullet_glyph (py ''  *'') text)),
       trace := trace w @
         [Save (uuid4 e), Load (uuid4 e),
          Generate (prompt_of (text_input_data form) (combined_text_of pages)) generation_config,
          Markdown (py_replace bullet_glyph (py ''  *'') text), Remove (uuid4 e)]\<rparr>)"
  using assms by (simp add: index_def effect_defs Let_def redirect_def)

lemma index_inference_raises:
  assumes "validate_on_submit req (UploadForm req) = (True, form)"
    and "pdf_file_data form = Some pdf"
    and "load_and_split e (content pdf) = Some pages"
    and "word_count_of (combined_text_of pages) < 18500"
    and "generate_content e (prompt_of (text_input_data form) (combined_text_of pages))
           generation_config = None"
  shows "index e req w =
    (Inl InferenceError,
     w\<lparr>files := (files w)(uuid4 e \<mapsto> content pdf),
       trace := trace w @
         [Save (uuid4 e), Load (uuid4 e),
          Generate (prompt_of (text_input_data form) (combined_text_of pages)) generation_config]\<rparr>)"
  using assms by (simp add: index_def effect_defs Let_def redirect_def)

lemma index_extraction_raises:
  assumes "validate_on_submit req (UploadForm req) = (True, form)"
    and "pdf_file_data form = Some pdf"
    and "load_and_split e (content pdf) = None"
  shows "index e req w =
    (Inl ExtractionError,
     w\<lparr>files := (files w)(uuid4 e \<mapsto> content pdf),
       trace := trace w @ [Save (uuid4 e), Load (uuid4 e)]\<rparr>)"
  using assms by (simp add: index_def effect_defs Let_def redirect_def)

lemma index_not_valid:
  assumes "validate_on_submit req (UploadForm req) = (False, form)"
  shows "index e req w = (Inr (Render ''index.html'' (Upload_form form)), w)"
  using assms by (simp add: index_def)

lemma inference_calls_append:
  "inference_calls (xs @ ys) = inference_calls xs @ inference_calls ys"
  by (induction xs rule: inference_calls.induct) simp_all

lemma markdown_calls_append:
  "markdown_calls (xs @ ys) = markdown_calls xs @ markdown_calls ys"
  by (induction xs rule: markdown_calls.induct) simp_all

lemma validated_form:
  assumes "validate_on_submit req (UploadForm req) = (True, form)"
    and "pdf_file req = Some pdf"
  shows "pdf_file_data form = Some pdf"
    and "text_input_data form =
           (case text_input req of None \<Rightarrow> text_input_default | Some t \<Rightarrow> t)"
  using assms
  by (auto simp: validate_on_submit_def UploadForm_def validate_def FileField_data_def
      pdf_file_validators_def FileRequired_def Let_def split: if_splits)

lemma validate_on_submit_iff:
  "fst (validate_on_submit req (UploadForm req)) \<longleftrightarrow>
     is_submitted req \<and>
     (\<exists>u. pdf_file req = Some u \<and> filename u \<noteq> [] \<and>
          endswith (py_lower (filename u)) (py ''.pdf''))"
  by (auto simp: validate_on_submit_def UploadForm_def validate_def FileField_data_def
      pdf_file_validators_def FileRequired_def FileAllowed_def Let_def py_def
      split: if_splits option.splits)

lemma sample_request_valid:
  "validate_on_submit sample_request (UploadForm sample_request) = (True, sample_form)"
  by (simp add: validate_on_submit_def UploadForm_def validate_def FileField_data_def
      pdf_file_validators_def FileRequired_def FileAllowed_def Let_def py_def
      sample_request_def sample_form_def sample_upload_def is_submitted_def
      endswith_def py_lower_def)

lemma split_from_word:
  "split_from [] (py ''word '' @ rest) = py ''word'' # split_from [] rest"
  by (simp add: py_def is_space_def)

lemma word_count_replicate:
  "word_count_of (concat (replicate n (py ''word ''))) = n"
  by (induction n) (simp_all add: word_count_of_def py_split_def split_from_word)

lemma word_count_long_text: "word_count_of long_text = 18500"
  by (simp only: long_text_def word_count_replicate)

lemma word_count_short:
  "word_count_of (combined_text_of sample_pages) = 5"
  by (simp add: word_count_of_def combined_text_of_def py_split_def py_def is_space_def
      sample_pages_def)

lemma replace_bullet_answer:
  "py_replace [226, 8364, 162] (py ''  *'') bullet_answer = py ''  * first point''"
  unfolding bullet_answer_def py_def by code_simp

lemma sample_prompt:
  "text_input_default @ py '' Use information from the PDF to respond.\<newline>\<newline>PDF:\<newline>''
     @ py_join (py ''\<newline>\<newline>'') sample_pages =
   py ''Summarize the PDF. Use information from the PDF to respond.\<newline>\<newline>PDF:\<newline>alpha beta\<newline>\<newline>gamma\<newline>\<newline>delta epsilon''"
  by (simp add: text_input_default_def sample_pages_def py_def)

lemma match_results_route:
  "match_request ''/pdf_results'' m = (if m = GET \<or> m = POST then Inr Pdf_results else Inl MethodNotAllowed)"
  by (simp add: match_request_def url_map_def)

lemma match_index_route:
  "match_request ''/'' m = (if m = GET \<or> m = POST then Inr Index else Inl MethodNotAllowed)"
  by (simp add: match_request_def url_map_def)

lemma dispatch_results_get:
  "req_method req = GET \<Longrightarrow> req_path req = ''/pdf_results'' \<Longrightarrow>
   dispatch e req w = pdf_results w"
  by (simp add: dispatch_def match_results_route is_submitted_def)

lemma index_redirect_cases:
  assumes "index e req w = (Inr (Redirect code location), w')"
  shows "\<exists>response_text.
           code = 302 \<and> location = ''/pdf_results'' \<and>
           fst (validate_on_submit req (UploadForm req)) \<and>
           markdown_calls (trace w') = markdown_calls (trace w) @ [response_text] \<and>
           session w' = (session w)(''markdown_response'' \<mapsto> markdown e response_text)"
  using assms
  by (auto simp: index_def effect_defs Let_def redirect_def markdown_calls_append
      split: prod.splits if_splits option.splits sum.splits)

lemma index_validated_responses:
  assumes "fst (validate_on_submit req (UploadForm req))"
  shows "fst (index e req w) = Inl ExtractionError \<or> fst (index e req w) = Inl InferenceError \<or>
         fst (index e req w) = Inr (Redirect 302 ''/pdf_results'')"
proof -
  obtain form where v: "validate_on_submit req (UploadForm req) = (True, form)"
    using assms by (cases "validate_on_submit req (UploadForm req)") auto
  then obtain pdf where p: "pdf_file req = Some pdf"
    using validate_on_submit_iff [of req] by auto
  note f = validated_form [OF v p]
  show ?thesis
  proof (cases "load_and_split e (content pdf)")
    case None
    from index_extraction_raises [OF v f(1) None, of w] show ?thesis by simp
  next
    case (Some pages)
    show ?thesis
    proof (cases "word_count_of (combined_text_of pages) < 18500")
      case False
      from index_too_long [OF v f(1) Some False, of w] show ?thesis by simp
    next
      case True
      show ?thesis
      proof (cases "generate_content e (prompt_of (text_input_data form) (combined_text_of pages))
                      generation_config")
        case None
        from index_inference_raises [OF v f(1) Some True None, of w] show ?thesis by simp
      next
        case (Some answer)
        from index_inference [OF v f(1) \<open>load_and_split e (content pdf) = Some pages\<close> True Some, of w]
        show ?thesis by simp
      qed
    qed
  qed
qed

lemma replace_summary:
  "py_replace bullet_glyph (py ''  *'') (py ''A summary.'') = py ''A summary.''"
  unfolding bullet_glyph_def py_def by code_simp

lemma index_short_on_earlier:
  "index env_short sample_request world_with_result =
     (Inr (Redirect 302 ''/pdf_results''),
      \<lparr>files = Map.empty,
       session = [''markdown_response'' \<mapsto> sample_markdown (py ''A summary.'')],
       trace = [Save ''7c9e6679'', Load ''7c9e6679'',
                Generate (prompt_of text_input_default (combined_text_of sample_pages))
                  generation_config,
                Markdown (py ''A summary.''), Remove ''7c9e6679'']\<rparr>)"
proof -
  have f: "pdf_file_data sample_form = Some sample_upload"
    by (simp add: sample_form_def)
  have s: "load_and_split env_short (content sample_upload) = Some sample_pages"
    by (simp add: env_short_def)
  have ws: "word_count_of (combined_text_of sample_pages) < 18500"
    by (simp add: word_count_short)
  have g: "generate_content env_short
     (prompt_of (text_input_data sample_form) (combined_text_of sample_pages))
     generation_config = Some (py ''A summary.'')"
    by (simp add: env_short_def)
  show ?thesis
    using index_inference [OF sample_request_valid f s ws g, of world_with_result]
    by (simp add: replace_summary world_with_result_def env_short_def sample_form_def)
qed

lemmas form_defs = validate_on_submit_def UploadForm_def validate_def FileField_data_def
  pdf_file_validators_def FileRequired_def FileAllowed_def

lemma empty_instruction_valid:
  "validate_on_submit empty_instruction_request (UploadForm empty_instruction_request) =
     (True, \<lparr>pdf_file_data = Some sample_upload, text_input_data = [], form_errors = []\<rparr>)"
  by (simp add: form_defs Let_def py_def empty_instruction_request_def sample_upload_def
      is_submitted_def endswith_def py_lower_def)

section \<open>The size gate\<close>

text \<open>
  Claim C1. The gate value is the number of words of the whitespace split of the combined
  text. When it is 18500 or more (18500 included) the handler takes the fixed message as
  its response text, hands exactly that to the markdown converter, stores the converted
  text and makes no call to the model; when it is below 18500 the handler makes one call
  to the model, whether or not that call then succeeds.
\<close>

theorem size_gate:
  assumes "validate_on_submit req (UploadForm req) = (True, form)"
    and "pdf_file req = Some pdf"
    and "load_and_split e (content pdf) = Some pages"
  shows "(18500 \<le> word_count_of (combined_text_of pages) \<longrightarrow>
            fst (index e req w) = Inr (Redirect 302 ''/pdf_results'') \<and>
            markdown_calls (trace (snd (index e req w))) =
              markdown_calls (trace w) @ [too_long_message] \<and>
            session (snd (index e req w)) ''markdown_response'' =
              Some (markdown e too_long_message) \<and>
            inference_calls (trace (snd (index e req w))) = inference_calls (trace w)) \<and>
         (word_count_of (combined_text_of pages) < 18500 \<longrightarrow>
            inference_calls (trace (snd (index e req w))) =
              inference_calls (trace w) @
                [(prompt_of (text_input_data form) (combined_text_of pages), generation_config)]) \<and>
         word_count_of (combined_text_of pages) = length (py_split (combined_text_of pages))"
proof -
  note f = validated_form [OF assms(1,2)]
  have big: "fst (index e req w) = Inr (Redirect 302 ''/pdf_results'') \<and>
            markdown_calls (trace (snd (index e req w))) =
              markdown_calls (trace w) @ [too_long_message] \<and>
            session (snd (index e req w)) ''markdown_response'' =
              Some (markdown e too_long_message) \<and>
            inference_calls (trace (snd (index e req w))) = inference_calls (trace w)"
    if "18500 \<le> word_count_of (combined_text_of pages)"
  proof -
    from that have "\<not> word_count_of (combined_text_of pages) < 18500" by simp
    from index_too_long [OF assms(1) f(1) assms(3) this, of w]
    show ?thesis by (simp add: markdown_calls_append inference_calls_append)
  qed
  have small: "inference_calls (trace (snd (index e req w))) =
              inference_calls (trace w) @
                [(prompt_of (text_input_data form) (combined_text_of pages), generation_config)]"
    if lt: "word_count_of (combined_text_of pages) < 18500"
  proof (cases "generate_content e (prompt_of (text_input_data form) (combined_text_of pages))
                  generation_config")
    case None
    from index_inference_raises [OF assms(1) f(1) assms(3) lt None, of w]
    show ?thesis by (simp add: inference_calls_append)
  next
    case (Some answer)
    from index_inference [OF assms(1) f(1) assms(3) lt Some, of w]
    show ?thesis by (simp add: inference_calls_append)
  qed
  from big small show ?thesis by (simp add: word_count_of_def)
qed

theorem size_gate_witness:
  "validate_on_submit sample_request (UploadForm sample_request) = (True, sample_form) \<and>
   pdf_file sample_request = Some sample_upload \<and>
   load_and_split env_long (content sample_upload) = Some [long_text] \<and>
   load_and_split env_short (content sample_upload) = Some sample_pages \<and>
   word_count_of (combined_text_of [long_text]) = 18500 \<and>
   fst (index env_long sample_request empty_world) = Inr (Redirect 302 ''/pdf_results'') \<and>
   markdown_calls (trace (snd (index env_long sample_request empty_world))) = [too_long_message] \<and>
   inference_calls (trace (snd (index env_long sample_request empty_world))) = [] \<and>
   word_count_of (combined_text_of sample_pages) = 5 \<and>
   inference_calls (trace (snd (index env_short sample_request empty_world))) =
     [(prompt_of text_input_default (combined_text_of sample_pages),
       generation_config)]"
proof -
  have p: "pdf_file sample_request = Some sample_upload"
    by (simp add: sample_request_def)
  have l: "load_and_split env_long (content sample_upload) = Some [long_text]"
    by (simp add: env_long_def)
  have s: "load_and_split env_short (content sample_upload) = Some sample_pages"
    by (simp add: env_short_def)
  have wl: "word_count_of (combined_text_of [long_text]) = 18500"
    by (simp add: combined_text_of_def word_count_long_text)
  show ?thesis
    using sample_request_valid p l s wl word_count_short
      size_gate [OF sample_request_valid p l, of empty_world]
      size_gate [OF sample_request_valid p s, of empty_world]
    by (simp add: empty_world_def sample_form_def)
qed

section \<open>Prompt assembly and the call to the model\<close>

text \<open>
  Claim C2. When the word count is below 18500 the handler calls the model exactly once:
  the calls it adds to the log hold one \<open>Generate\<close> event, whose prompt is the instruction,
  the fixed preamble and the page texts joined by a blank line, sent with the fixed
  generation parameters. The instruction is the submitted text, or the default when the
  field is absent. Instruction and combined text both occur in the prompt.
\<close>

theorem inference_prompt:
  assumes "validate_on_submit req (UploadForm req) = (True, form)"
    and "pdf_file req = Some pdf"
    and "load_and_split e (content pdf) = Some pages"
    and "length (py_split (py_join (py ''\<newline>\<newline>'') pages)) < 18500"
    and "instruction = (case text_input req of None \<Rightarrow> py ''Summarize the PDF.'' | Some t \<Rightarrow> t)"
    and "prompt = instruction @ py '' Use information from the PDF to respond.\<newline>\<newline>PDF:\<newline>''
                    @ py_join (py ''\<newline>\<newline>'') pages"
  shows "inference_calls (drop (length (trace w)) (trace (snd (index e req w)))) =
           [(prompt,
             \<lparr>temperature = 3 / 10, top_p = 6 / 10, candidate_count = 1,
              max_output_tokens = 4096\<rparr>)] \<and>
         (\<exists>a b. prompt = a @ instruction @ b) \<and>
         (\<exists>a b. prompt = a @ py_join (py ''\<newline>\<newline>'') pages @ b)"
proof -
  note f = validated_form [OF assms(1,2)]
  have lt: "word_count_of (combined_text_of pages) < 18500"
    using assms(4) by (simp add: word_count_of_def combined_text_of_def)
  have p: "prompt_of (text_input_data form) (combined_text_of pages) = prompt"
    using f(2) assms(5,6)
    by (simp add: prompt_of_def combined_text_of_def text_input_default_def split: option.splits)
  have calls: "inference_calls (drop (length (trace w)) (trace (snd (index e req w)))) =
                 [(prompt, generation_config)]"
  proof (cases "generate_content e (prompt_of (text_input_data form) (combined_text_of pages))
                  generation_config")
    case None
    from index_inference_raises [OF assms(1) f(1) assms(3) lt None, of w]
    show ?thesis by (simp add: p)
  next
    case (Some answer)
    from index_inference [OF assms(1) f(1) assms(3) lt Some, of w]
    show ?thesis by (simp add: p)
  qed
  have a: "\<exists>a b. prompt = a @ instruction @ b"
    using assms(6) by (intro exI [of _ "[]"] exI) simp
  have b: "\<exists>a b. prompt = a @ py_join (py ''\<newline>\<newline>'') pages @ b"
    using assms(6) by (intro exI [of _ "instruction @ py '' Use information from the PDF to respond.\<newline>\<newline>PDF:\<newline>''"] exI [of _ "[]"]) simp
  from calls a b show ?thesis by (simp add: generation_config_def)
qed

theorem inference_prompt_witness:
  "validate_on_submit sample_request (UploadForm sample_request) = (True, sample_form) \<and>
   pdf_file sample_request = Some sample_upload \<and>
   load_and_split env_short (content sample_upload) = Some sample_pages \<and>
   length (py_split (py_join (py ''\<newline>\<newline>'') sample_pages)) < 18500 \<and>
   inference_calls
     (drop (length (trace empty_world)) (trace (snd (index env_short sample_request empty_world)))) =
     [(py ''Summarize the PDF. Use information from the PDF to respond.\<newline>\<newline>PDF:\<newline>alpha beta\<newline>\<newline>gamma\<newline>\<newline>delta epsilon'',
       \<lparr>temperature = 3 / 10, top_p = 6 / 10, candidate_count = 1, max_output_tokens = 4096\<rparr>)]"
proof -
  have p: "pdf_file sample_request = Some sample_upload"
    by (simp add: sample_request_def)
  have s: "load_and_split env_short (content sample_upload) = Some sample_pages"
    by (simp add: env_short_def)
  have lt: "length (py_split (py_join (py ''\<newline>\<newline>'') sample_pages)) < 18500"
    using word_count_short by (simp add: word_count_of_def combined_text_of_def)
  have i: "py ''Summarize the PDF.'' =
     (case text_input sample_request of None \<Rightarrow> py ''Summarize the PDF.'' | Some t \<Rightarrow> t)"
    by (simp add: sample_request_def)
  show ?thesis
    using sample_request_valid p s lt
      inference_prompt [OF sample_request_valid p s lt i refl, of empty_world]
    by (simp add: sample_prompt [unfolded text_input_default_def])
qed

section \<open>The temporary file\<close>

text \<open>
  Claim C3. For every validated upload the first two calls of the handler are the save of
  the file named by \<open>uuid4\<close> and then the parser on that file. On the oversized branch,
  and on the inference branch when the model answers, the log goes on to the markdown
  conversion of the response text and ends with the removal of the file; storage is then
  what it was before, less that name. Whenever the handler returns a response, the file
  is absent and the removal was its last call.
\<close>

theorem temporary_file_removed:
  assumes "validate_on_submit req (UploadForm req) = (True, form)"
    and "pdf_file req = Some pdf"
  shows "take 2 (drop (length (trace w)) (trace (snd (index e req w)))) =
           [Save (uuid4 e), Load (uuid4 e)] \<and>
         (\<forall>pages. load_and_split e (content pdf) = Some pages \<and>
            18500 \<le> word_count_of (combined_text_of pages) \<longrightarrow>
            trace (snd (index e req w)) =
              trace w @ [Save (uuid4 e), Load (uuid4 e), Markdown too_long_message,
                         Remove (uuid4 e)] \<and>
            files (snd (index e req w)) = (files w)(uuid4 e := None)) \<and>
         (\<forall>pages answer. load_and_split e (content pdf) = Some pages \<and>
            word_count_of (combined_text_of pages) < 18500 \<and>
            generate_content e (prompt_of (text_input_data form) (combined_text_of pages))
              generation_config = Some answer \<longrightarrow>
            trace (snd (index e req w)) =
              trace w @ [Save (uuid4 e), Load (uuid4 e),
                         Generate (prompt_of (text_input_data form) (combined_text_of pages))
                           generation_config,
                         Markdown (py_replace bullet_glyph (py ''  *'') answer),
                         Remove (uuid4 e)] \<and>
            files (snd (index e req w)) = (files w)(uuid4 e := None)) \<and>
         (\<forall>r. fst (index e req w) = Inr r \<longrightarrow>
            files (snd (index e req w)) (uuid4 e) = None \<and>
            last (trace (snd (index e req w))) = Remove (uuid4 e))"
proof -
  note f = validated_form [OF assms]
  show ?thesis
  proof (cases "load_and_split e (content pdf)")
    case None
    from index_extraction_raises [OF assms(1) f(1) None, of w]
    show ?thesis by (simp add: None)
  next
    case (Some pages)
    note loaded = Some
    show ?thesis
    proof (cases "word_count_of (combined_text_of pages) < 18500")
      case False
      from index_too_long [OF assms(1) f(1) loaded False, of w]
      show ?thesis using loaded False by simp
    next
      case True
      show ?thesis
      proof (cases "generate_content e
                      (prompt_of (text_input_data form) (combined_text_of pages))
                      generation_config")
        case None
        from index_inference_raises [OF assms(1) f(1) loaded True None, of w]
        show ?thesis using loaded True None by simp
      next
        case (Some answer)
        from index_inference [OF assms(1) f(1) loaded True Some, of w]
        show ?thesis using loaded True Some by simp
      qed
    qed
  qed
qed

theorem temporary_file_removed_witness:
  "validate_on_submit sample_request (UploadForm sample_request) = (True, sample_form) \<and>
   pdf_file sample_request = Some sample_upload \<and>
   load_and_split env_long (content sample_upload) = Some [long_text] \<and>
   18500 \<le> word_count_of (combined_text_of [long_text]) \<and>
   load_and_split env_short (content sample_upload) = Some sample_pages \<and>
   word_count_of (combined_text_of sample_pages) < 18500 \<and>
   generate_content env_short
     (prompt_of (text_input_data sample_form) (combined_text_of sample_pages))
     generation_config = Some (py ''A summary.'') \<and>
   trace (snd (index env_long sample_request empty_world)) =
     [Save ''0f8fad5b'', Load ''0f8fad5b'', Markdown too_long_message, Remove ''0f8fad5b''] \<and>
   files (snd (index env_long sample_request empty_world)) ''0f8fad5b'' = None \<and>
   trace (snd (index env_short sample_request empty_world)) =
     [Save ''7c9e6679'', Load ''7c9e6679'',
      Generate (prompt_of (text_input_data sample_form) (combined_text_of sample_pages))
        generation_config,
      Markdown (py_replace bullet_glyph (py ''  *'') (py ''A summary.'')),
      Remove ''7c9e6679''] \<and>
   files (snd (index env_short sample_request empty_world)) ''7c9e6679'' = None \<and>
   take 2 (trace (snd (index env_unparseable sample_request empty_world))) =
     [Save ''16fd2706'', Load ''16fd2706'']"
proof -
  have p: "pdf_file sample_request = Some sample_upload"
    by (simp add: sample_request_def)
  have l: "load_and_split env_long (content sample_upload) = Some [long_text]"
    by (simp add: env_long_def)
  have s: "load_and_split env_short (content sample_upload) = Some sample_pages"
    by (simp add: env_short_def)
  have wl: "18500 \<le> word_count_of (combined_text_of [long_text])"
    by (simp add: combined_text_of_def word_count_long_text)
  have ws: "word_count_of (combined_text_of sample_pages) < 18500"
    by (simp add: word_count_short)
  have g: "generate_content env_short
     (prompt_of (text_input_data sample_form) (combined_text_of sample_pages))
     generation_config = Some (py ''A summary.'')"
    by (simp add: env_short_def)
  have nl: "uuid4 env_long = ''0f8fad5b''" by (simp add: env_long_def)
  have ns: "uuid4 env_short = ''7c9e6679''" by (simp add: env_short_def)
  have nu: "uuid4 env_unparseable = ''16fd2706''" by (simp add: env_unparseable_def)
  have e: "trace empty_world = []" "files empty_world = Map.empty"
    by (simp_all add: empty_world_def)
  have a: "trace (snd (index env_long sample_request empty_world)) =
     [Save ''0f8fad5b'', Load ''0f8fad5b'', Markdown too_long_message, Remove ''0f8fad5b''] \<and>
   files (snd (index env_long sample_request empty_world)) ''0f8fad5b'' = None"
    using l wl
      temporary_file_removed [OF sample_request_valid p, where e = env_long and w = empty_world]
    by (simp add: nl e)
  have b: "trace (snd (index env_short sample_request empty_world)) =
     [Save ''7c9e6679'', Load ''7c9e6679'',
      Generate (prompt_of (text_input_data sample_form) (combined_text_of sample_pages))
        generation_config,
      Markdown (py_replace bullet_glyph (py ''  *'') (py ''A summary.'')),
      Remove ''7c9e6679''] \<and>
   files (snd (index env_short sample_request empty_world)) ''7c9e6679'' = None"
    using s ws g
      temporary_file_removed [OF sample_request_valid p, where e = env_short and w = empty_world]
    by (simp add: ns e)
  have c: "take 2 (trace (snd (index env_unparseable sample_request empty_world))) =
     [Save ''16fd2706'', Load ''16fd2706'']"
    using
      temporary_file_removed [OF sample_request_valid p, where e = env_unparseable
        and w = empty_world]
    by (simp add: nu e)
  from sample_request_valid p l wl s ws g a b c show ?thesis by simp
qed

text \<open>
  Claim C8. When the parser raises, or when the model raises on the inference branch, the
  request fails with nothing cleaned up: the temporary file is still in storage with the
  uploaded content, no \<open>Remove\<close> was issued, and the session is what it was before.
\<close>

theorem failure_leaves_file_and_session:
  assumes "validate_on_submit req (UploadForm req) = (True, form)"
    and "pdf_file req = Some pdf"
  shows "(load_and_split e (content pdf) = None \<longrightarrow>
            fst (index e req w) = Inl ExtractionError \<and>
            files (snd (index e req w)) (uuid4 e) = Some (content pdf) \<and>
            session (snd (index e req w)) = session w \<and>
            trace (snd (index e req w)) = trace w @ [Save (uuid4 e), Load (uuid4 e)]) \<and>
         (\<forall>pages. load_and_split e (content pdf) = Some pages \<and>
            word_count_of (combined_text_of pages) < 18500 \<and>
            generate_content e (prompt_of (text_input_data form) (combined_text_of pages))
              generation_config = None \<longrightarrow>
            fst (index e req w) = Inl InferenceError \<and>
            files (snd (index e req w)) (uuid4 e) = Some (content pdf) \<and>
            session (snd (index e req w)) = session w \<and>
            trace (snd (index e req w)) =
              trace w @ [Save (uuid4 e), Load (uuid4 e),
                         Generate (prompt_of (text_input_data form) (combined_text_of pages))
                           generation_config])"
proof -
  note f = validated_form [OF assms(1,2)]
  have ex: "fst (index e req w) = Inl ExtractionError \<and>
            files (snd (index e req w)) (uuid4 e) = Some (content pdf) \<and>
            session (snd (index e req w)) = session w \<and>
            trace (snd (index e req w)) = trace w @ [Save (uuid4 e), Load (uuid4 e)]"
    if "load_and_split e (content pdf) = None"
    using index_extraction_raises [OF assms(1) f(1) that, of w] by simp
  have inf: "fst (index e req w) = Inl InferenceError \<and>
            files (snd (index e req w)) (uuid4 e) = Some (content pdf) \<and>
            session (snd (index e req w)) = session w \<and>
            trace (snd (index e req w)) =
              trace w @ [Save (uuid4 e), Load (uuid4 e),
                         Generate (prompt_of (text_input_data form) (combined_text_of pages))
                           generation_config]"
    if "load_and_split e (content pdf) = Some pages"
      and "word_count_of (combined_text_of pages) < 18500"
      and "generate_content e (prompt_of (text_input_data form) (combined_text_of pages))
              generation_config = None" for pages
    using index_inference_raises [OF assms(1) f(1) that, of w] by simp
  from ex inf show ?thesis by blast
qed

theorem failure_leaves_file_and_session_witness:
  "validate_on_submit sample_request (UploadForm sample_request) = (True, sample_form) \<and>
   pdf_file sample_request = Some sample_upload \<and>
   load_and_split env_unparseable (content sample_upload) = None \<and>
   load_and_split env_quota (content sample_upload) = Some sample_pages \<and>
   word_count_of (combined_text_of sample_pages) < 18500 \<and>
   generate_content env_quota
     (prompt_of (text_input_data sample_form) (combined_text_of sample_pages))
     generation_config = None \<and>
   fst (index env_unparseable sample_request world_with_result) = Inl ExtractionError \<and>
   files (snd (index env_unparseable sample_request world_with_result)) ''16fd2706'' =
     Some ''%PDF-1.4'' \<and>
   session (snd (index env_unparseable sample_request world_with_result)) ''markdown_response'' =
     Some (py ''<p>Earlier.</p>'') \<and>
   fst (index env_quota sample_request world_with_result) = Inl InferenceError \<and>
   files (snd (index env_quota sample_request world_with_result)) ''6ba7b810'' =
     Some ''%PDF-1.4'' \<and>
   session (snd (index env_quota sample_request world_with_result)) ''markdown_response'' =
     Some (py ''<p>Earlier.</p>'')"
proof -
  have p: "pdf_file sample_request = Some sample_upload"
    by (simp add: sample_request_def)
  have u: "load_and_split env_unparseable (content sample_upload) = None"
    by (simp add: env_unparseable_def)
  have q: "load_and_split env_quota (content sample_upload) = Some sample_pages"
    by (simp add: env_quota_def)
  have ws: "word_count_of (combined_text_of sample_pages) < 18500"
    by (simp add: word_count_short)
  have g: "generate_content env_quota
     (prompt_of (text_input_data sample_form) (combined_text_of sample_pages))
     generation_config = None"
    by (simp add: env_quota_def)
  have nu: "uuid4 env_unparseable = ''16fd2706''" by (simp add: env_unparseable_def)
  have nq: "uuid4 env_quota = ''6ba7b810''" by (simp add: env_quota_def)
  have c: "content sample_upload = ''%PDF-1.4''" by (simp add: sample_upload_def)
  have se: "session world_with_result ''markdown_response'' = Some (py ''<p>Earlier.</p>'')"
    by (simp add: world_with_result_def)
  show ?thesis
    using sample_request_valid p u q ws g se
      failure_leaves_file_and_session [OF sample_request_valid p,
        of env_unparseable world_with_result]
      failure_leaves_file_and_session [OF sample_request_valid p,
        of env_quota world_with_result]
    by (simp add: nu nq c)
qed

section \<open>The bullet repair\<close>

text \<open>
  Claim C10. On the oversized branch the markdown converter receives the fixed message
  itself; the replacement of the mis-decoded bullet by two spaces and a star is applied
  on the inference branch only, to the text the model returned.
\<close>

theorem bullet_repair_scope:
  assumes "validate_on_submit req (UploadForm req) = (True, form)"
    and "pdf_file req = Some pdf"
    and "load_and_split e (content pdf) = Some pages"
  shows "(18500 \<le> word_count_of (combined_text_of pages) \<longrightarrow>
            markdown_calls (drop (length (trace w)) (trace (snd (index e req w)))) =
              [py ''This text is too long for this application's current configuration.\<newline>\<newline>Please use a shorter text.'']) \<and>
         (word_count_of (combined_text_of pages) < 18500 \<longrightarrow>
            (\<forall>answer.
               generate_content e (prompt_of (text_input_data form) (combined_text_of pages))
                 generation_config = Some answer \<longrightarrow>
               markdown_calls (drop (length (trace w)) (trace (snd (index e req w)))) =
                 [py_replace [226, 8364, 162] (py ''  *'') answer]))"
proof -
  note f = validated_form [OF assms(1,2)]
  have big: "markdown_calls (drop (length (trace w)) (trace (snd (index e req w)))) =
              [py ''This text is too long for this application's current configuration.\<newline>\<newline>Please use a shorter text.'']"
    if "18500 \<le> word_count_of (combined_text_of pages)"
  proof -
    from that have "\<not> word_count_of (combined_text_of pages) < 18500" by simp
    from index_too_long [OF assms(1) f(1) assms(3) this, of w]
    show ?thesis by (simp add: too_long_message_def)
  qed
  have small: "markdown_calls (drop (length (trace w)) (trace (snd (index e req w)))) =
                 [py_replace [226, 8364, 162] (py ''  *'') answer]"
    if "word_count_of (combined_text_of pages) < 18500"
      and "generate_content e (prompt_of (text_input_data form) (combined_text_of pages))
                 generation_config = Some answer" for answer
    using index_inference [OF assms(1) f(1) assms(3) that, of w]
    by (simp add: bullet_glyph_def)
  from big small show ?thesis by blast
qed

theorem bullet_repair_scope_witness:
  "validate_on_submit sample_request (UploadForm sample_request) = (True, sample_form) \<and>
   pdf_file sample_request = Some sample_upload \<and>
   load_and_split env_long (content sample_upload) = Some [long_text] \<and>
   load_and_split env_bullet (content sample_upload) = Some sample_pages \<and>
   18500 \<le> word_count_of (combined_text_of [long_text]) \<and>
   word_count_of (combined_text_of sample_pages) < 18500 \<and>
   generate_content env_bullet
     (prompt_of (text_input_data sample_form) (combined_text_of sample_pages))
     generation_config = Some bullet_answer \<and>
   markdown_calls
     (drop (length (trace empty_world)) (trace (snd (index env_long sample_request empty_world)))) =
     [py ''This text is too long for this application's current configuration.\<newline>\<newline>Please use a shorter text.''] \<and>
   markdown_calls
     (drop (length (trace empty_world)) (trace (snd (index env_bullet sample_request empty_world)))) =
     [py ''  * first point'']"
proof -
  have p: "pdf_file sample_request = Some sample_upload"
    by (simp add: sample_request_def)
  have l: "load_and_split env_long (content sample_upload) = Some [long_text]"
    by (simp add: env_long_def)
  have s: "load_and_split env_bullet (content sample_upload) = Some sample_pages"
    by (simp add: env_bullet_def)
  have wl: "18500 \<le> word_count_of (combined_text_of [long_text])"
    by (simp add: combined_text_of_def word_count_long_text)
  have ws: "word_count_of (combined_text_of sample_pages) < 18500"
    by (simp add: word_count_short)
  have g: "generate_content env_bullet
     (prompt_of (text_input_data sample_form) (combined_text_of sample_pages))
     generation_config = Some bullet_answer"
    by (simp add: env_bullet_def)
  show ?thesis
    using sample_request_valid p l s wl ws g
      bullet_repair_scope [OF sample_request_valid p l, of empty_world]
      bullet_repair_scope [OF sample_request_valid p s, of empty_world]
    by (simp add: replace_bullet_answer)
qed

section \<open>The results view\<close>

text \<open>
  Claim C5. The results view reads the session under the key \<open>markdown_response\<close>. When
  the key is absent the lookup raises \<open>KeyError\<close> and the request fails, with nothing
  handled or defaulted; when it is present the view renders \<open>pdf_results.html\<close> with the
  stored HTML. A GET of \<open>/pdf_results\<close> reaches this view. After an upload that ended in
  the redirect, the stored HTML is the converted response text of that upload, whatever
  the session held before.
\<close>

theorem results_view:
  "(session w ''markdown_response'' = None \<longrightarrow>
      pdf_results w = (Inl (KeyError ''markdown_response''), w)) \<and>
   (\<forall>html. session w ''markdown_response'' = Some html \<longrightarrow>
      pdf_results w = (Inr (Render ''pdf_results.html'' (Response_text html)), w)) \<and>
   (req_method req = GET \<and> req_path req = ''/pdf_results'' \<longrightarrow>
      dispatch e req w = pdf_results w) \<and>
   (index e' upload_req w0 = (Inr (Redirect code location), w) \<longrightarrow>
      (\<exists>response_text.
         markdown_calls (trace w) = markdown_calls (trace w0) @ [response_text] \<and>
         pdf_results w =
           (Inr (Render ''pdf_results.html'' (Response_text (markdown e' response_text))), w)))"
proof -
  have stored: "\<exists>response_text.
         markdown_calls (trace w) = markdown_calls (trace w0) @ [response_text] \<and>
         pdf_results w =
           (Inr (Render ''pdf_results.html'' (Response_text (markdown e' response_text))), w)"
    if "index e' upload_req w0 = (Inr (Redirect code location), w)"
  proof -
    from index_redirect_cases [OF that] obtain response_text where
      "markdown_calls (trace w) = markdown_calls (trace w0) @ [response_text]"
      "session w = (session w0)(''markdown_response'' \<mapsto> markdown e' response_text)"
      by blast
    then show ?thesis by (auto simp: pdf_results_def)
  qed
  have get: "dispatch e req w = pdf_results w"
    if "req_method req = GET \<and> req_path req = ''/pdf_results''"
    using that by (simp add: dispatch_results_get)
  from stored get show ?thesis by (simp add: pdf_results_def)
qed

theorem results_view_witness:
  "session empty_world ''markdown_response'' = None \<and>
   req_method results_get = GET \<and> req_path results_get = ''/pdf_results'' \<and>
   dispatch env_short results_get empty_world =
     (Inl (KeyError ''markdown_response''), empty_world) \<and>
   session world_with_result ''markdown_response'' = Some (py ''<p>Earlier.</p>'') \<and>
   dispatch env_short results_get world_with_result =
     (Inr (Render ''pdf_results.html'' (Response_text (py ''<p>Earlier.</p>''))),
      world_with_result) \<and>
   fst (index env_short sample_request world_with_result) = Inr (Redirect 302 ''/pdf_results'') \<and>
   fst (pdf_results (snd (index env_short sample_request world_with_result))) =
     Inr (Render ''pdf_results.html'' (Response_text (sample_markdown (py ''A summary.''))))"
proof -
  let ?w = "snd (index env_short sample_request world_with_result)"
  have n: "session empty_world ''markdown_response'' = None"
    by (simp add: empty_world_def)
  have g: "req_method results_get = GET \<and> req_path results_get = ''/pdf_results''"
    by (simp add: results_get_def)
  have s: "session world_with_result ''markdown_response'' = Some (py ''<p>Earlier.</p>'')"
    by (simp add: world_with_result_def)
  have i: "index env_short sample_request world_with_result =
             (Inr (Redirect 302 ''/pdf_results''), ?w)"
    by (simp add: index_short_on_earlier)
  have m: "markdown_calls (trace ?w) = [py ''A summary.'']"
    by (simp add: index_short_on_earlier)
  have m0: "markdown_calls (trace world_with_result) = []"
    by (simp add: world_with_result_def)
  have md: "markdown env_short = sample_markdown"
    by (simp add: env_short_def)
  have fi: "fst (index env_short sample_request world_with_result) =
              Inr (Redirect 302 ''/pdf_results'')"
    by (simp add: index_short_on_earlier)
  have a: "dispatch env_short results_get empty_world =
             (Inl (KeyError ''markdown_response''), empty_world)"
    using n g results_view [of empty_world results_get env_short env_short sample_request
        world_with_result 302 "''/pdf_results''"]
    by simp
  have b: "dispatch env_short results_get world_with_result =
     (Inr (Render ''pdf_results.html'' (Response_text (py ''<p>Earlier.</p>''))),
      world_with_result)"
    using s g results_view [of world_with_result results_get env_short env_short sample_request
        world_with_result 302 "''/pdf_results''"]
    by simp
  have c: "fst (pdf_results ?w) =
     Inr (Render ''pdf_results.html'' (Response_text (sample_markdown (py ''A summary.''))))"
    using i m m0 md results_view [of ?w results_get env_short env_short sample_request
        world_with_result 302 "''/pdf_results''"]
    by auto
  show ?thesis
    using n g s fi a b c by simp
qed

section \<open>The redirect after an upload\<close>

text \<open>
  Claim C6 says that a successful POST is answered with a 303 redirect. The view calls
  \<open>redirect\<close> without a status code, so the answer carries the default status 302.
\<close>

theorem redirect_status_counterexample:
  "fst (validate_on_submit sample_request (UploadForm sample_request)) \<and>
   fst (index env_short sample_request empty_world) = Inr (Redirect 302 ''/pdf_results'') \<and>
   fst (index env_short sample_request empty_world) \<noteq> Inr (Redirect 303 ''/pdf_results'')"
proof -
  have f: "pdf_file_data sample_form = Some sample_upload"
    by (simp add: sample_form_def)
  have s: "load_and_split env_short (content sample_upload) = Some sample_pages"
    by (simp add: env_short_def)
  have ws: "word_count_of (combined_text_of sample_pages) < 18500"
    by (simp add: word_count_short)
  have g: "generate_content env_short
     (prompt_of (text_input_data sample_form) (combined_text_of sample_pages))
     generation_config = Some (py ''A summary.'')"
    by (simp add: env_short_def)
  from index_inference [OF sample_request_valid f s ws g, of empty_world]
  show ?thesis by (simp add: sample_request_valid)
qed

text \<open>
  Claim C6, amended. A validated POST that the handler answers at all is answered with a
  redirect of status 302 to \<open>/pdf_results\<close>, a path the results route serves on GET; by
  then the response text has been converted and the HTML stored in the session under
  \<open>markdown_response\<close>.
\<close>

theorem redirect_after_upload:
  assumes "fst (validate_on_submit req (UploadForm req))"
    and "index e req w = (Inr r, w')"
  shows "r = Redirect 302 ''/pdf_results'' \<and>
         match_request ''/pdf_results'' GET = Inr Pdf_results \<and>
         (\<exists>response_text.
            markdown_calls (trace w') = markdown_calls (trace w) @ [response_text] \<and>
            session w' ''markdown_response'' = Some (markdown e response_text))"
proof -
  from index_validated_responses [OF assms(1), of e w] assms(2)
  have r: "r = Redirect 302 ''/pdf_results''" by auto
  from index_redirect_cases [OF assms(2) [unfolded r]] obtain response_text where
    "markdown_calls (trace w') = markdown_calls (trace w) @ [response_text]"
    "session w' = (session w)(''markdown_response'' \<mapsto> markdown e response_text)"
    by blast
  with r show ?thesis by (auto simp: match_results_route)
qed

theorem redirect_after_upload_witness:
  "fst (validate_on_submit sample_request (UploadForm sample_request)) \<and>
   index env_short sample_request world_with_result =
     (Inr (Redirect 302 ''/pdf_results''), snd (index env_short sample_request world_with_result)) \<and>
   match_request ''/pdf_results'' GET = Inr Pdf_results \<and>
   session (snd (index env_short sample_request world_with_result)) ''markdown_response'' =
     Some (sample_markdown (py ''A summary.''))"
proof -
  let ?w = "snd (index env_short sample_request world_with_result)"
  have v: "fst (validate_on_submit sample_request (UploadForm sample_request))"
    by (simp add: sample_request_valid)
  have i: "index env_short sample_request world_with_result = (Inr (Redirect 302 ''/pdf_results''), ?w)"
    by (simp add: index_short_on_earlier)
  have m: "markdown_calls (trace ?w) = [py ''A summary.'']"
    by (simp add: index_short_on_earlier)
  have m0: "markdown_calls (trace world_with_result) = []"
    by (simp add: world_with_result_def)
  have md: "markdown env_short = sample_markdown"
    by (simp add: env_short_def)
  from redirect_after_upload [OF v i] m m0 md
  have "match_request ''/pdf_results'' GET = Inr Pdf_results \<and>
        session ?w ''markdown_response'' = Some (sample_markdown (py ''A summary.''))"
    by auto
  with v i show ?thesis by simp
qed

section \<open>Methods of the results route\<close>

text \<open>
  Claim C9 says that a POST to \<open>/pdf_results\<close> behaves as a GET does. The application
  checks the CSRF token of every POST before the view runs: a POST without an accepted
  token is refused where the GET renders the stored result.
\<close>

theorem results_post_counterexample:
  "req_method results_post_without_token = POST \<and>
   req_path results_post_without_token = ''/pdf_results'' \<and>
   dispatch env_short results_post_without_token world_with_result =
     (Inl CSRFError, world_with_result) \<and>
   dispatch env_short (results_post_without_token\<lparr>req_method := GET\<rparr>) world_with_result =
     (Inr (Render ''pdf_results.html'' (Response_text (py ''<p>Earlier.</p>''))),
      world_with_result) \<and>
   dispatch env_short results_post_without_token world_with_result \<noteq>
     dispatch env_short (results_post_without_token\<lparr>req_method := GET\<rparr>) world_with_result"
  by (simp add: results_post_without_token_def dispatch_def match_results_route
      is_submitted_def pdf_results_def world_with_result_def)

text \<open>
  Claim C9, amended. The results route is registered for GET and POST; PUT, PATCH and
  DELETE are not routed to it. A POST to \<open>/pdf_results\<close> whose CSRF token is accepted behaves as the GET does
  and renders the stored session result; a POST without an accepted token is refused
  before the view runs.
\<close>

theorem results_route_methods:
  "(match_request ''/pdf_results'' m = Inr Pdf_results \<longleftrightarrow> m = GET \<or> m = POST) \<and>
   (req_path req = ''/pdf_results'' \<and> req_method req = POST \<and> csrf_ok req \<longrightarrow>
      dispatch e req w = dispatch e (req\<lparr>req_method := GET\<rparr>) w \<and>
      dispatch e req w = pdf_results w) \<and>
   (req_path req = ''/pdf_results'' \<and> req_method req = POST \<and> \<not> csrf_ok req \<longrightarrow>
      dispatch e req w = (Inl CSRFError, w))"
  by (simp add: dispatch_def match_results_route is_submitted_def)

theorem results_route_methods_witness:
  "match_request ''/pdf_results'' POST = Inr Pdf_results \<and>
   match_request ''/pdf_results'' PUT \<noteq> Inr Pdf_results \<and>
   req_path results_post_with_token = ''/pdf_results'' \<and>
   req_method results_post_with_token = POST \<and> csrf_ok results_post_with_token \<and>
   dispatch env_short results_post_with_token world_with_result =
     (Inr (Render ''pdf_results.html'' (Response_text (py ''<p>Earlier.</p>''))),
      world_with_result) \<and>
   dispatch env_short (results_post_with_token\<lparr>req_method := GET\<rparr>) world_with_result =
     (Inr (Render ''pdf_results.html'' (Response_text (py ''<p>Earlier.</p>''))),
      world_with_result) \<and>
   \<not> csrf_ok results_post_without_token \<and>
   dispatch env_short results_post_without_token world_with_result =
     (Inl CSRFError, world_with_result)"
proof -
  have t: "req_path results_post_with_token = ''/pdf_results'' \<and>
           req_method results_post_with_token = POST \<and> csrf_ok results_post_with_token"
    by (simp add: results_post_with_token_def)
  have n: "req_path results_post_without_token = ''/pdf_results'' \<and>
           req_method results_post_without_token = POST \<and>
           \<not> csrf_ok results_post_without_token"
    by (simp add: results_post_without_token_def)
  have p: "pdf_results world_with_result =
     (Inr (Render ''pdf_results.html'' (Response_text (py ''<p>Earlier.</p>''))),
      world_with_result)"
    by (simp add: pdf_results_def world_with_result_def)
  show ?thesis
    using t n p
      results_route_methods [of POST results_post_with_token env_short world_with_result]
      results_route_methods [of PUT results_post_without_token env_short world_with_result]
    by auto
qed

section \<open>Validation of the upload form\<close>

text \<open>
  Claim C4 says that the form requires non-empty instruction text. The text field has no
  validator: a submission with a PDF and an empty instruction validates, and the model is
  called with a prompt that starts at the preamble.
\<close>

theorem empty_instruction_counterexample:
  "text_input empty_instruction_request = Some [] \<and>
   fst (validate_on_submit empty_instruction_request (UploadForm empty_instruction_request)) \<and>
   text_input_data
     (snd (validate_on_submit empty_instruction_request (UploadForm empty_instruction_request))) = [] \<and>
   inference_calls (trace (snd (index env_short empty_instruction_request empty_world))) =
     [(py '' Use information from the PDF to respond.\<newline>\<newline>PDF:\<newline>''
         @ combined_text_of sample_pages, generation_config)]"
proof -
  have f: "pdf_file_data \<lparr>pdf_file_data = Some sample_upload, text_input_data = [],
             form_errors = []\<rparr> = Some sample_upload"
    by simp
  have s: "load_and_split env_short (content sample_upload) = Some sample_pages"
    by (simp add: env_short_def)
  have ws: "word_count_of (combined_text_of sample_pages) < 18500"
    by (simp add: word_count_short)
  have g: "generate_content env_short
     (prompt_of (text_input_data \<lparr>pdf_file_data = Some sample_upload, text_input_data = [],
             form_errors = []\<rparr>) (combined_text_of sample_pages))
     generation_config = Some (py ''A summary.'')"
    by (simp add: env_short_def)
  have t: "text_input empty_instruction_request = Some []"
    by (simp add: empty_instruction_request_def)
  have c: "inference_calls (trace (snd (index env_short empty_instruction_request empty_world))) =
     [(py '' Use information from the PDF to respond.\<newline>\<newline>PDF:\<newline>''
         @ combined_text_of sample_pages, generation_config)]"
    using index_inference [OF empty_instruction_valid f s ws g, of empty_world]
    by (simp add: prompt_of_def empty_world_def)
  from t c show ?thesis by (simp add: empty_instruction_valid)
qed

text \<open>
  Claim C4, amended. A submission validates exactly when it carries a file part whose
  name, lowered, ends in \<open>.pdf\<close>; the instruction text is not validated and may be empty,
  and it defaults to \<open>Summarize the PDF.\<close> when the field is absent. A submission with no
  file, or with a file of another extension, gets the upload page back with a validation
  error on the file field, and the world is unchanged: no temporary file is written and
  neither the parser nor the model is called.
\<close>

theorem upload_validation:
  "(fst (validate_on_submit req (UploadForm req)) \<longleftrightarrow>
      is_submitted req \<and>
      (\<exists>u. pdf_file req = Some u \<and> filename u \<noteq> [] \<and>
           endswith (py_lower (filename u)) (py ''.pdf''))) \<and>
   (is_submitted req \<longrightarrow>
      text_input_data (snd (validate_on_submit req (UploadForm req))) =
        (case text_input req of None \<Rightarrow> py ''Summarize the PDF.'' | Some t \<Rightarrow> t)) \<and>
   (is_submitted req \<and>
    (pdf_file req = None \<or> (\<exists>u. pdf_file req = Some u \<and> filename u = [])) \<longrightarrow>
      (\<exists>f. form_errors f = [(''pdf_file'', py ''This field is required.'')] \<and>
           index e req w = (Inr (Render ''index.html'' (Upload_form f)), w))) \<and>
   (is_submitted req \<and>
    (\<exists>u. pdf_file req = Some u \<and> filename u \<noteq> [] \<and>
         \<not> endswith (py_lower (filename u)) (py ''.pdf'')) \<longrightarrow>
      (\<exists>f. form_errors f = [(''pdf_file'', py ''Please select a PDF.'')] \<and>
           index e req w = (Inr (Render ''index.html'' (Upload_form f)), w)))"
proof -
  have req: "\<exists>f. form_errors f = [(''pdf_file'', py ''This field is required.'')] \<and>
           index e req w = (Inr (Render ''index.html'' (Upload_form f)), w)"
    if "is_submitted req"
      and "pdf_file req = None \<or> (\<exists>u. pdf_file req = Some u \<and> filename u = [])"
    using that by (auto simp: index_def form_defs Let_def)
  have ext: "\<exists>f. form_errors f = [(''pdf_file'', py ''Please select a PDF.'')] \<and>
           index e req w = (Inr (Render ''index.html'' (Upload_form f)), w)"
    if "is_submitted req"
      and "\<exists>u. pdf_file req = Some u \<and> filename u \<noteq> [] \<and>
         \<not> endswith (py_lower (filename u)) (py ''.pdf'')"
    using that by (auto simp: index_def form_defs Let_def py_def)
  have dflt: "text_input_data (snd (validate_on_submit req (UploadForm req))) =
        (case text_input req of None \<Rightarrow> py ''Summarize the PDF.'' | Some t \<Rightarrow> t)"
    if "is_submitted req"
    using that
    by (simp add: validate_on_submit_def UploadForm_def validate_def Let_def
        text_input_default_def split: option.splits)
  from req ext dflt validate_on_submit_iff [of req] show ?thesis by blast
qed

theorem upload_validation_witness:
  "is_submitted txt_request \<and> is_submitted no_file_request \<and>
   \<not> fst (validate_on_submit txt_request (UploadForm txt_request)) \<and>
   \<not> fst (validate_on_submit no_file_request (UploadForm no_file_request)) \<and>
   fst (validate_on_submit sample_request (UploadForm sample_request)) \<and>
   text_input_data (snd (validate_on_submit no_file_request (UploadForm no_file_request))) =
     py ''Summarize the PDF.'' \<and>
   (\<exists>f. form_errors f = [(''pdf_file'', py ''This field is required.'')] \<and>
        index env_short no_file_request empty_world =
          (Inr (Render ''index.html'' (Upload_form f)), empty_world)) \<and>
   (\<exists>f. form_errors f = [(''pdf_file'', py ''Please select a PDF.'')] \<and>
        index env_short txt_request empty_world =
          (Inr (Render ''index.html'' (Upload_form f)), empty_world))"
proof -
  have st: "is_submitted txt_request" and sn: "is_submitted no_file_request"
    by (simp_all add: is_submitted_def txt_request_def no_file_request_def)
  have n: "pdf_file no_file_request = None" "text_input no_file_request = None"
    by (simp_all add: no_file_request_def)
  have t: "pdf_file txt_request = Some \<lparr>filename = py ''notes.txt'', content = ''plain text''\<rparr>"
    by (simp add: txt_request_def)
  have x: "py ''notes.txt'' \<noteq> [] \<and> \<not> endswith (py_lower (py ''notes.txt'')) (py ''.pdf'')"
    by (simp add: py_def endswith_def py_lower_def)
  have v: "fst (validate_on_submit sample_request (UploadForm sample_request))"
    by (simp add: sample_request_valid)
  show ?thesis
    using st sn n t x v
      upload_validation [of txt_request env_short empty_world]
      upload_validation [of no_file_request env_short empty_world]
    by simp
qed

end
